theory Spec2Isabelle
  imports Complex_Main
begin

section \<open>Shoe inventory: a shallow embedding of inventory.py\<close>

text \<open>
  The program keeps a list of shoe records in memory, loads it from and saves it to a
  comma-separated text file, and answers a handful of menu operations with linear scans.

  Conventions of the embedding.
  \<^item> Text is \<open>string\<close>; the model covers ASCII text (the case mapping and the sets of
    whitespace characters are the ASCII part of Python's).
  \<^item> A Python \<open>float\<close> is an IEEE 754 double with its two zeros, two infinities and
    \<open>nan\<close>; conversions and arithmetic round to the nearest double, ties to even.
  \<^item> A Python \<open>int\<close> is \<open>int\<close>; the conversions between an int and its text refuse more
    than 4300 digits, as Python 3.11 does.
  \<^item> The operator's console input is a list of lines, consumed from the front; when it
    runs out, \<open>input()\<close> raises \<open>EOFError\<close>, which every operation catches.
  \<^item> The two files are the fields of a \<open>disk\<close>, as the text they hold; \<open>None\<close> is a file
    that does not exist, and \<open>read_only\<close> makes every \<open>open(..., 'w')\<close> fail with an
    \<open>IOError\<close>. Reading translates the line ends \<open>CR\<close> and \<open>CR LF\<close> to \<open>LF\<close>; writing leaves
    \<open>LF\<close> as it is.
  \<^item> The \<open>try ... except Exception\<close> around each operation is the branch taken when
    \<open>to_dict\<close> raises \<open>OverflowError\<close>, the one exception the modelled part can raise
    there besides \<open>EOFError\<close>.
  \<^item> Log lines and console prompts are not modelled, and neither is the chart that
    \<open>value_per_item\<close> prints behind the total.
\<close>

subsection \<open>Text operations\<close>

definition newline :: char where
  "newline = CHR 0x0A"

definition carriage_return :: char where
  "carriage_return = CHR 0x0D"

definition comma :: char where
  "comma = CHR '',''"

text \<open>\<open>str.isspace\<close> on ASCII: tab, line feed, vertical tab, form feed, carriage return,
  the four separators 0x1C..0x1F and the space.\<close>

definition isspace :: "char \<Rightarrow> bool" where
  "isspace c = (c \<in> set [CHR 0x09, CHR 0x0A, CHR 0x0B, CHR 0x0C, CHR 0x0D,
                          CHR 0x1C, CHR 0x1D, CHR 0x1E, CHR 0x1F, CHR 0x20])"

definition strip :: "string \<Rightarrow> string" where
  "strip s = rev (dropWhile isspace (rev (dropWhile isspace s)))"

definition upper_char :: "char \<Rightarrow> char" where
  "upper_char c = (let n = (of_char c :: nat) in if 97 \<le> n \<and> n \<le> 122 then char_of (n - 32) else c)"

definition lower_char :: "char \<Rightarrow> char" where
  "lower_char c = (let n = (of_char c :: nat) in if 65 \<le> n \<and> n \<le> 90 then char_of (n + 32) else c)"

definition upper :: "string \<Rightarrow> string" where
  "upper s = map upper_char s"

definition lower :: "string \<Rightarrow> string" where
  "lower s = map lower_char s"

text \<open>\<open>s.split(",")\<close>: always at least one part.\<close>

fun split_comma :: "string \<Rightarrow> string list" where
  "split_comma [] = [[]]"
| "split_comma (c # cs) =
     (if c = comma then [] # split_comma cs
      else (case split_comma cs of [] \<Rightarrow> [[c]] | p # ps \<Rightarrow> (c # p) # ps))"

text \<open>Reading a file opened in text mode: \<open>CR LF\<close> and a lone \<open>CR\<close> arrive as \<open>LF\<close>.\<close>

fun universal_newlines :: "string \<Rightarrow> string" where
  "universal_newlines [] = []"
| "universal_newlines [c] = (if c = carriage_return then [newline] else [c])"
| "universal_newlines (c # d # cs) =
     (if c = carriage_return
      then (if d = newline then newline # universal_newlines cs
            else newline # universal_newlines (d # cs))
      else c # universal_newlines (d # cs))"

text \<open>The lines of a text: every line keeps its line feed; the last one may lack it.\<close>

fun split_lines :: "string \<Rightarrow> string list" where
  "split_lines [] = []"
| "split_lines (c # cs) =
     (if c = newline then [c] # split_lines cs
      else (case split_lines cs of [] \<Rightarrow> [[c]] | l # ls \<Rightarrow> (c # l) # ls))"

text \<open>\<open>file.readlines()\<close> on the text a file holds.\<close>

definition readlines :: "string \<Rightarrow> string list" where
  "readlines txt = split_lines (universal_newlines txt)"

text \<open>Comparison of two \<open>str\<close> values: lexicographic, by code point.\<close>

fun str_less :: "string \<Rightarrow> string \<Rightarrow> bool" where
  "str_less [] [] = False"
| "str_less [] (y # ys) = True"
| "str_less (x # xs) [] = False"
| "str_less (x # xs) (y # ys) =
     ((of_char x :: nat) < of_char y \<or> (x = y \<and> str_less xs ys))"

subsection \<open>Numbers and their text\<close>

text \<open>The whitespace that \<open>int\<close> and \<open>float\<close> skip around a number in ASCII text: tab, line
  feed, vertical tab, form feed, carriage return and the space.\<close>

definition c_isspace :: "char \<Rightarrow> bool" where
  "c_isspace c = (c \<in> set [CHR 0x09, CHR 0x0A, CHR 0x0B, CHR 0x0C, CHR 0x0D, CHR 0x20])"

definition c_strip :: "string \<Rightarrow> string" where
  "c_strip s = rev (dropWhile c_isspace (rev (dropWhile c_isspace s)))"

definition isdigit :: "char \<Rightarrow> bool" where
  "isdigit c = (48 \<le> (of_char c :: int) \<and> (of_char c :: int) \<le> 57)"

definition digit_val :: "char \<Rightarrow> int" where
  "digit_val c = of_char c - 48"

definition digit_char :: "int \<Rightarrow> char" where
  "digit_char d = char_of (48 + d)"

definition digits_to_int :: "string \<Rightarrow> int" where
  "digits_to_int s = foldl (\<lambda>acc c. 10 * acc + digit_val c) 0 s"

text \<open>The digit groups Python reads in a number: digits, with single underscores allowed
  between two digits.\<close>

fun digitpart_rest :: "string \<Rightarrow> bool" where
  "digitpart_rest [] = True"
| "digitpart_rest (c # cs) =
     (if isdigit c then digitpart_rest cs
      else if c = CHR ''_'' then (case cs of [] \<Rightarrow> False | d # ds \<Rightarrow> isdigit d \<and> digitpart_rest ds)
      else False)"

definition digitpart :: "string \<Rightarrow> bool" where
  "digitpart s = (case s of [] \<Rightarrow> False | c # cs \<Rightarrow> isdigit c \<and> digitpart_rest cs)"

definition digitpart_val :: "string \<Rightarrow> int" where
  "digitpart_val s = digits_to_int (filter isdigit s)"

text \<open>An optional sign in front of a number's text: whether it is a minus, and the rest.\<close>

definition split_sign :: "string \<Rightarrow> bool \<times> string" where
  "split_sign s =
     (case s of
        [] \<Rightarrow> (False, [])
      | c # cs \<Rightarrow> if c = CHR ''-'' then (True, cs) else if c = CHR ''+'' then (False, cs) else (False, s))"

text \<open>The longest digit string \<open>int\<close> converts and \<open>str\<close> writes (\<open>sys.int_max_str_digits\<close>).\<close>

definition int_max_str_digits :: int where
  "int_max_str_digits = 4300"

text \<open>\<open>int(s)\<close> for a string: \<open>None\<close> is the \<open>ValueError\<close>.\<close>

definition py_int :: "string \<Rightarrow> int option" where
  "py_int s =
     (case split_sign (c_strip s) of
        (neg, body) \<Rightarrow>
          if digitpart body \<and> int (length (filter isdigit body)) \<le> int_max_str_digits
          then Some (if neg then - digitpart_val body else digitpart_val body)
          else None)"

text \<open>The decimal digits of a number that is not negative.\<close>

function str_digits :: "int \<Rightarrow> string" where
  "str_digits n = (if n < 10 then [digit_char n] else str_digits (n div 10) @ [digit_char (n mod 10)])"
  by pat_completeness auto
termination
  by (relation "measure nat") auto

declare str_digits.simps [simp del]

text \<open>\<open>str(n)\<close> for an int raises \<open>ValueError\<close> when it needs more digits than the limit.\<close>

definition str_int_raises :: "int \<Rightarrow> bool" where
  "str_int_raises i = (int_max_str_digits < int (length (str_digits \<bar>i\<bar>)))"

definition str_int :: "int \<Rightarrow> string" where
  "str_int i = (if i < 0 then CHR ''-'' # str_digits (- i) else str_digits i)"

text \<open>The last \<open>k\<close> decimal digits of \<open>n\<close>, zero padded.\<close>

fun fixed_digits :: "nat \<Rightarrow> int \<Rightarrow> string" where
  "fixed_digits 0 n = []"
| "fixed_digits (Suc k) n = fixed_digits k (n div 10) @ [digit_char (n mod 10)]"

text \<open>A Python \<open>float\<close> is an IEEE 754 double: \<open>Finite s m e\<close> stands for \<open>m * 2 ^ e\<close>, negated
  when the sign \<open>s\<close> is set, with \<open>m < 2 ^ 53\<close> and \<open>- 1074 \<le> e \<le> 971\<close>; zero is
  \<open>Finite s 0 0\<close>.\<close>

datatype pyfloat = Finite bool int int | Infinite bool | NaN

definition pow2 :: "int \<Rightarrow> rat" where
  "pow2 e = (if 0 \<le> e then 2 ^ nat e else 1 / 2 ^ nat (- e))"

definition pow10 :: "int \<Rightarrow> rat" where
  "pow10 e = (if 0 \<le> e then 10 ^ nat e else 1 / 10 ^ nat (- e))"

fun float_val :: "pyfloat \<Rightarrow> rat" where
  "float_val (Finite s m e) = (if s then - (of_int m * pow2 e) else of_int m * pow2 e)"
| "float_val (Infinite s) = 0"
| "float_val NaN = 0"

text \<open>The number of binary digits of a positive integer.\<close>

function bitlen :: "int \<Rightarrow> int" where
  "bitlen n = (if n \<le> 0 then 0 else 1 + bitlen (n div 2))"
  by pat_completeness auto
termination
  by (relation "measure nat") auto

declare bitlen.simps [simp del]

text \<open>For \<open>r > 0\<close>, the exponent \<open>e\<close> with \<open>2 ^ e \<le> r < 2 ^ (e + 1)\<close>.\<close>

definition ilog2 :: "rat \<Rightarrow> int" where
  "ilog2 r =
     (case quotient_of r of
        (p, q) \<Rightarrow> (let d = bitlen p - bitlen q in if pow2 d \<le> r then d else d - 1))"

definition round_half_even :: "rat \<Rightarrow> int" where
  "round_half_even x =
     (let f = \<lfloor>x\<rfloor>; d = x - of_int f
      in if d < 1 / 2 then f else if 1 / 2 < d then f + 1 else if even f then f else f + 1)"

text \<open>The double nearest to a number \<open>r \<ge> 0\<close>, ties to the even mantissa, with the sign
  \<open>s\<close>: the rounding of every conversion and operation.\<close>

definition round_double :: "bool \<Rightarrow> rat \<Rightarrow> pyfloat" where
  "round_double s r =
     (if r \<le> 0 then Finite s 0 0
      else (let e = max (ilog2 r - 52) (- 1074);
                m = round_half_even (r / pow2 e)
            in if m = 0 then Finite s 0 0
               else if m = 2 ^ 53 then (if 971 < e + 1 then Infinite s else Finite s (2 ^ 52) (e + 1))
               else if 971 < e then Infinite s
               else Finite s m e))"

text \<open>\<open>x < 0\<close> for a float: false for both zeros and for \<open>nan\<close>.\<close>

fun float_lt0 :: "pyfloat \<Rightarrow> bool" where
  "float_lt0 (Finite s m e) = (s \<and> 0 < m)"
| "float_lt0 (Infinite s) = s"
| "float_lt0 NaN = False"

text \<open>The conversion of an int to a float, which \<open>float * int\<close> makes first. It raises
  \<open>OverflowError\<close> when the int rounds beyond the largest double.\<close>

definition int_to_float :: "int \<Rightarrow> pyfloat" where
  "int_to_float q = round_double (q < 0) (of_int \<bar>q\<bar>)"

definition int_to_float_raises :: "int \<Rightarrow> bool" where
  "int_to_float_raises q = (case int_to_float q of Infinite s \<Rightarrow> True | _ \<Rightarrow> False)"

fun float_mul :: "pyfloat \<Rightarrow> pyfloat \<Rightarrow> pyfloat" where
  "float_mul NaN b = NaN"
| "float_mul a NaN = NaN"
| "float_mul (Infinite s1) (Infinite s2) = Infinite (s1 \<noteq> s2)"
| "float_mul (Infinite s1) (Finite s2 m e) = (if m = 0 then NaN else Infinite (s1 \<noteq> s2))"
| "float_mul (Finite s1 m e) (Infinite s2) = (if m = 0 then NaN else Infinite (s1 \<noteq> s2))"
| "float_mul (Finite s1 m1 e1) (Finite s2 m2 e2) =
     round_double (s1 \<noteq> s2) (of_int (m1 * m2) * pow2 (e1 + e2))"

fun float_add :: "pyfloat \<Rightarrow> pyfloat \<Rightarrow> pyfloat" where
  "float_add NaN b = NaN"
| "float_add a NaN = NaN"
| "float_add (Infinite s1) (Infinite s2) = (if s1 = s2 then Infinite s1 else NaN)"
| "float_add (Infinite s1) (Finite s2 m e) = Infinite s1"
| "float_add (Finite s1 m e) (Infinite s2) = Infinite s2"
| "float_add (Finite s1 m1 e1) (Finite s2 m2 e2) =
     (let r = float_val (Finite s1 m1 e1) + float_val (Finite s2 m2 e2)
      in if r = 0 then Finite (s1 \<and> s2) 0 0 else round_double (r < 0) \<bar>r\<bar>)"

text \<open>The text before and after the first character that satisfies \<open>P\<close>; the second part
  is \<open>None\<close> when there is no such character.\<close>

definition split_at :: "(char \<Rightarrow> bool) \<Rightarrow> string \<Rightarrow> string \<times> string option" where
  "split_at P s =
     (case dropWhile (\<lambda>c. \<not> P c) s of
        [] \<Rightarrow> (s, None)
      | c # r \<Rightarrow> (takeWhile (\<lambda>c. \<not> P c) s, Some r))"

text \<open>The exponent of a float's text: an optional sign and a digit group.\<close>

definition py_exponent :: "string option \<Rightarrow> int option" where
  "py_exponent ex =
     (case ex of
        None \<Rightarrow> Some 0
      | Some t \<Rightarrow> (case split_sign t of
                    (neg, body) \<Rightarrow>
                      if digitpart body
                      then Some (if neg then - digitpart_val body else digitpart_val body)
                      else None))"

text \<open>The mantissa of a float's text: its digits as a number and how many of them stand
  behind the point. One of the two digit groups may be missing, not both.\<close>

definition py_mantissa :: "string \<Rightarrow> (int \<times> int) option" where
  "py_mantissa t =
     (case split_at (\<lambda>c. c = CHR ''.'') t of
        (ip, None) \<Rightarrow> if digitpart ip then Some (digitpart_val ip, 0) else None
      | (ip, Some fp) \<Rightarrow>
          if (ip = [] \<or> digitpart ip) \<and> (fp = [] \<or> digitpart fp) \<and> (ip \<noteq> [] \<or> fp \<noteq> [])
          then Some (digits_to_int (filter isdigit ip @ filter isdigit fp),
                     int (length (filter isdigit fp)))
          else None)"

text \<open>\<open>float(s)\<close> for a string: \<open>None\<close> is the \<open>ValueError\<close>. The words \<open>inf\<close>, \<open>infinity\<close> and
  \<open>nan\<close> are read in any case; a decimal is rounded to the nearest double.\<close>

definition py_float :: "string \<Rightarrow> pyfloat option" where
  "py_float s =
     (case split_sign (c_strip s) of
        (neg, body) \<Rightarrow>
          if lower body = ''inf'' \<or> lower body = ''infinity'' then Some (Infinite neg)
          else if lower body = ''nan'' then Some NaN
          else (case split_at (\<lambda>c. c = CHR ''e'' \<or> c = CHR ''E'') body of
                  (mant, ex) \<Rightarrow>
                    (case py_mantissa mant of
                       None \<Rightarrow> None
                     | Some (m, f) \<Rightarrow>
                         (case py_exponent ex of
                            None \<Rightarrow> None
                          | Some e \<Rightarrow> Some (round_double neg (of_int m * pow10 (e - f)))))))"

text \<open>\<open>'{:.2f}'.format(x)\<close>: the exact value of the double with two digits behind the
  point, ties to the even digit.\<close>

fun format_2f :: "pyfloat \<Rightarrow> string" where
  "format_2f (Finite s m e) =
     (let cents = round_half_even (of_int m * pow2 e * 100);
          body = str_digits (cents div 100) @ [CHR ''.''] @ fixed_digits 2 (cents mod 100)
      in if s then CHR ''-'' # body else body)"
| "format_2f (Infinite s) = (if s then ''-inf'' else ''inf'')"
| "format_2f NaN = ''nan''"

text \<open>For \<open>v > 0\<close>, the position of the decimal point: the \<open>k\<close> with
  \<open>10 ^ (k - 1) \<le> v < 10 ^ k\<close>, read off the number of digits of the integer part of \<open>v\<close>,
  or of \<open>1 / v\<close> when \<open>v < 1\<close>.\<close>

definition decpt :: "rat \<Rightarrow> int" where
  "decpt v =
     (if 1 \<le> v then int (length (str_digits \<lfloor>v\<rfloor>))
      else (let j = int (length (str_digits \<lfloor>1 / v\<rfloor>))
            in if pow10 (1 - j) \<le> v then 2 - j else 1 - j))"

text \<open>The shortest decimal that \<open>float\<close> reads back as the double \<open>x > 0\<close>: with \<open>n\<close>
  significant digits, the two decimals around the value are tried, and of those that
  read back the nearer one is taken (the even one on a tie). The result is the digits as
  a number and the power of ten they are multiplied with. Seventeen digits always
  suffice.\<close>

definition shortest_at :: "pyfloat \<Rightarrow> int \<Rightarrow> (int \<times> int) option" where
  "shortest_at x n =
     (let v = float_val x;
          sc = decpt v - n;
          lo = \<lfloor>v / pow10 sc\<rfloor>;
          hi = lo + 1;
          ok_lo = (round_double False (of_int lo * pow10 sc) = x);
          ok_hi = (round_double False (of_int hi * pow10 sc) = x);
          d_lo = v - of_int lo * pow10 sc;
          d_hi = of_int hi * pow10 sc - v
      in if ok_lo \<and> ok_hi
         then (if d_lo < d_hi \<or> (d_lo = d_hi \<and> even lo) then Some (lo, sc) else Some (hi, sc))
         else if ok_lo then Some (lo, sc)
         else if ok_hi then Some (hi, sc)
         else None)"

fun shortest_from :: "nat \<Rightarrow> pyfloat \<Rightarrow> int \<Rightarrow> int \<times> int" where
  "shortest_from 0 x n = (\<lfloor>float_val x / pow10 (decpt (float_val x) - n)\<rfloor>, decpt (float_val x) - n)"
| "shortest_from (Suc fuel) x n =
     (case shortest_at x n of Some r \<Rightarrow> r | None \<Rightarrow> shortest_from fuel x (n + 1))"

definition shortest_digits :: "pyfloat \<Rightarrow> int \<times> int" where
  "shortest_digits x = shortest_from 17 x 1"

definition strip_zeros :: "string \<Rightarrow> string" where
  "strip_zeros ds = rev (dropWhile (\<lambda>c. c = CHR ''0'') (rev ds))"

text \<open>\<open>str(x)\<close> and \<open>repr(x)\<close> for a float: the shortest digits, in positional notation when
  the decimal point stands within them or at most four places before or sixteen places
  behind their start, and with an exponent of at least two digits otherwise.\<close>

definition repr_digits :: "string \<Rightarrow> int \<Rightarrow> string" where
  "repr_digits ds dp =
     (let k = int (length ds) in
      if - 4 < dp \<and> dp \<le> 16 then
        (if dp \<le> 0 then ''0.'' @ replicate (nat (- dp)) (CHR ''0'') @ ds
         else if k \<le> dp then ds @ replicate (nat (dp - k)) (CHR ''0'') @ ''.0''
         else take (nat dp) ds @ [CHR ''.''] @ drop (nat dp) ds)
      else
        (let ex = dp - 1;
             mant = (if 1 < k then hd ds # CHR ''.'' # tl ds else ds);
             exd = (if \<bar>ex\<bar> < 10 then CHR ''0'' # str_digits \<bar>ex\<bar> else str_digits \<bar>ex\<bar>)
         in mant @ [CHR ''e''] @ (if ex < 0 then ''-'' else ''+'') @ exd))"

fun str_float :: "pyfloat \<Rightarrow> string" where
  "str_float NaN = ''nan''"
| "str_float (Infinite s) = (if s then ''-inf'' else ''inf'')"
| "str_float (Finite s m e) =
     (let body =
        (if m = 0 then ''0.0''
         else (case shortest_digits (Finite False m e) of
                 (d, sc) \<Rightarrow>
                   (let ds = str_digits d
                    in repr_digits (strip_zeros ds) (sc + int (length ds)))))
      in if s then CHR ''-'' # body else body)"

subsection \<open>The class Shoe\<close>

record shoe =
  country :: string
  code :: string
  product :: string
  cost :: pyfloat
  quantity :: int

datatype value_error = Invalid_cost string | Invalid_quantity string | Negative_quantity

text \<open>\<open>Shoe.__init__\<close>: \<open>Inl\<close> is the \<open>ValueError\<close> it raises, and then no object exists.\<close>

definition Shoe_init :: "string \<Rightarrow> string \<Rightarrow> string \<Rightarrow> string \<Rightarrow> string \<Rightarrow> value_error + shoe" where
  "Shoe_init country_t code_t product_t cost_t quantity_t =
     (case py_float cost_t of
        None \<Rightarrow> Inl (Invalid_cost cost_t)
      | Some c \<Rightarrow>
          if float_lt0 c then Inl (Invalid_cost cost_t)
          else (case py_int quantity_t of
                  None \<Rightarrow> Inl (Invalid_quantity quantity_t)
                | Some q \<Rightarrow>
                    if q < 0 then Inl (Invalid_quantity quantity_t)
                    else Inr \<lparr>country = strip country_t, code = strip code_t,
                              product = strip product_t, cost = c, quantity = q\<rparr>))"

definition get_quantity :: "shoe \<Rightarrow> int" where
  "get_quantity s = quantity s"

definition update_quantity :: "shoe \<Rightarrow> int \<Rightarrow> value_error + shoe" where
  "update_quantity s new_quantity =
     (if new_quantity < 0 then Inl Negative_quantity else Inr (s\<lparr>quantity := new_quantity\<rparr>))"

text \<open>\<open>to_dict\<close> multiplies the cost by the quantity, which first converts the quantity
  to a float: \<open>to_dict_raises\<close> says when that raises \<open>OverflowError\<close>, and \<open>to_dict\<close> is the
  dictionary when it does not. Every caller tests \<open>to_dict_raises\<close> first.\<close>

record shoe_dict =
  d_country :: string
  d_code :: string
  d_product :: string
  d_cost :: pyfloat
  d_quantity :: int
  d_value :: pyfloat

definition to_dict_raises :: "shoe \<Rightarrow> bool" where
  "to_dict_raises s = int_to_float_raises (quantity s)"

definition to_dict :: "shoe \<Rightarrow> shoe_dict" where
  "to_dict s = \<lparr>d_country = country s, d_code = code s, d_product = product s,
               d_cost = cost s, d_quantity = quantity s,
               d_value = float_mul (cost s) (int_to_float (quantity s))\<rparr>"

definition overflow_message :: string where
  "overflow_message = ''int too large to convert to float''"

text \<open>The same row once the two currency columns are formatted.\<close>

record table_row =
  t_country :: string
  t_code :: string
  t_product :: string
  t_cost :: string
  t_quantity :: int
  t_value :: string

definition format_currency :: "shoe_dict \<Rightarrow> table_row" where
  "format_currency r = \<lparr>t_country = d_country r, t_code = d_code r, t_product = d_product r,
                        t_cost = CHR ''$'' # format_2f (d_cost r), t_quantity = d_quantity r,
                        t_value = CHR ''$'' # format_2f (d_value r)\<rparr>"

datatype out = Print string | Table "table_row list"

subsection \<open>The class InventoryManager\<close>

record inventory_manager =
  shoes_list :: "shoe list"
  header :: string

record disk =
  inventory_txt :: "string option"
  backup_txt :: "string option"
  read_only :: bool

definition DEFAULT_HEADER :: string where
  "DEFAULT_HEADER = ''Country,Code,Product,Cost,Quantity''"

definition InventoryManager_init :: inventory_manager where
  "InventoryManager_init = \<lparr>shoes_list = [], header = DEFAULT_HEADER\<rparr>"

text \<open>One turn of the loop of \<open>read_shoes_data\<close> over the lines behind the header: a blank
  line and a line that does not have five fields are passed over, and so is a line whose
  \<open>Shoe\<close> raises \<open>ValueError\<close>.\<close>

definition load_line :: "string \<Rightarrow> inventory_manager \<Rightarrow> inventory_manager" where
  "load_line raw self =
     (let line = strip raw in
      if line = [] then self
      else (case split_comma line of
              [country_t, code_t, product_t, cost_t, quantity_t] \<Rightarrow>
                (case Shoe_init country_t code_t product_t cost_t quantity_t of
                   Inl e \<Rightarrow> self
                 | Inr s \<Rightarrow> self\<lparr>shoes_list := shoes_list self @ [s]\<rparr>)
            | _ \<Rightarrow> self))"

fun load_lines :: "string list \<Rightarrow> inventory_manager \<Rightarrow> inventory_manager" where
  "load_lines [] self = self"
| "load_lines (raw # rest) self = load_lines rest (load_line raw self)"

text \<open>\<open>read_shoes_data\<close>: the list is cleared first; the result is the returned flag and
  the manager afterwards.\<close>

definition read_shoes_data :: "inventory_manager \<Rightarrow> disk \<Rightarrow> bool \<times> inventory_manager" where
  "read_shoes_data self0 d =
     (let self = self0\<lparr>shoes_list := []\<rparr> in
      case inventory_txt d of
        None \<Rightarrow> (False, self)
      | Some txt \<Rightarrow>
          (case readlines txt of
             [] \<Rightarrow> (False, self)
           | first # rest \<Rightarrow>
               (let loaded = load_lines rest (self\<lparr>header := strip first\<rparr>)
                in (shoes_list loaded \<noteq> [], loaded))))"

definition shoe_line :: "shoe \<Rightarrow> string" where
  "shoe_line s = country s @ [comma] @ code s @ [comma] @ product s @ [comma] @
                 str_float (cost s) @ [comma] @ str_int (quantity s) @ [newline]"

text \<open>\<open>save_shoes_data\<close>: a backup of the file as it reads, when there is one and it can
  be written, then the header and one line for each shoe. A quantity that \<open>str\<close> refuses
  ends the writing at that shoe: the file keeps what was written before, and the result
  is \<open>False\<close>.\<close>

definition save_shoes_data :: "inventory_manager \<Rightarrow> disk \<Rightarrow> bool \<times> disk" where
  "save_shoes_data self d =
     (let d1 = (if inventory_txt d \<noteq> None \<and> \<not> read_only d
                then d\<lparr>backup_txt := map_option universal_newlines (inventory_txt d)\<rparr> else d)
      in if read_only d then (False, d1)
         else (let written = takeWhile (\<lambda>s. \<not> str_int_raises (quantity s)) (shoes_list self)
               in (length written = length (shoes_list self),
                   d1\<lparr>inventory_txt :=
                        Some (header self @ [newline] @ concat (map shoe_line written))\<rparr>)))"

text \<open>The two prompt loops of \<open>capture_shoes\<close>: each reads lines until one is a number that
  is not negative, and hands back that line's text and the input left. \<open>None\<close>: the input
  ran out.\<close>

fun read_cost :: "string list \<Rightarrow> (string \<times> string list) option" where
  "read_cost [] = None"
| "read_cost (l # ls) =
     (case py_float (strip l) of
        None \<Rightarrow> read_cost ls
      | Some v \<Rightarrow> if float_lt0 v then read_cost ls else Some (strip l, ls))"

fun read_quantity :: "string list \<Rightarrow> (string \<times> string list) option" where
  "read_quantity [] = None"
| "read_quantity (l # ls) =
     (case py_int (strip l) of
        None \<Rightarrow> read_quantity ls
      | Some v \<Rightarrow> if v < 0 then read_quantity ls else Some (strip l, ls))"

text \<open>\<open>capture_shoes\<close>: the flag it returns, the manager and the disk afterwards.\<close>

definition capture_shoes ::
  "inventory_manager \<Rightarrow> string list \<Rightarrow> disk \<Rightarrow> bool \<times> inventory_manager \<times> disk" where
  "capture_shoes self inputs d =
     (case inputs of
        [] \<Rightarrow> (False, self, d)
      | l1 # in1 \<Rightarrow>
          if strip l1 = [] then (False, self, d)
          else (case in1 of
                  [] \<Rightarrow> (False, self, d)
                | l2 # in2 \<Rightarrow>
                    if strip l2 = [] then (False, self, d)
                    else if (\<exists>s \<in> set (shoes_list self). upper (code s) = upper (strip l2))
                    then (False, self, d)
                    else (case in2 of
                            [] \<Rightarrow> (False, self, d)
                          | l3 # in3 \<Rightarrow>
                              if strip l3 = [] then (False, self, d)
                              else (case read_cost in3 of
                                      None \<Rightarrow> (False, self, d)
                                    | Some (cost_t, in4) \<Rightarrow>
                                        (case read_quantity in4 of
                                           None \<Rightarrow> (False, self, d)
                                         | Some (quantity_t, in5) \<Rightarrow>
                                             (case Shoe_init (strip l1) (strip l2) (strip l3) cost_t quantity_t of
                                                Inl e \<Rightarrow> (False, self, d)
                                              | Inr new_shoe \<Rightarrow>
                                                  (let self' = self\<lparr>shoes_list := shoes_list self @ [new_shoe]\<rparr>
                                                   in case save_shoes_data self' d of
                                                        (ok, d') \<Rightarrow> (ok, self', d'))))))))"

text \<open>\<open>min\<close> over the quantities, as the scan it is: the running minimum changes only for
  a smaller item.\<close>

fun py_min :: "int \<Rightarrow> int list \<Rightarrow> int" where
  "py_min m [] = m"
| "py_min m (x # xs) = py_min (if x < m then x else m) xs"

text \<open>The shoes at the lowest quantity. They are the objects of the list themselves, so
  the model keeps their positions in \<open>shoes_list\<close>.\<close>

definition lowest_quantity_shoes :: "shoe list \<Rightarrow> nat list" where
  "lowest_quantity_shoes xs =
     (case xs of
        [] \<Rightarrow> []
      | x # rest \<Rightarrow>
          (let min_quantity = py_min (get_quantity x) (map get_quantity rest)
           in filter (\<lambda>i. get_quantity (xs ! i) = min_quantity) [0..<length xs]))"

text \<open>The prompt loop for the index among \<open>n\<close> tied shoes: \<open>-1\<close> cancels, an index in
  range is taken, anything else asks again.\<close>

fun choose_index :: "nat \<Rightarrow> string list \<Rightarrow> (nat \<times> string list) option" where
  "choose_index n [] = None"
| "choose_index n (l # ls) =
     (case py_int l of
        None \<Rightarrow> choose_index n ls
      | Some idx \<Rightarrow>
          if idx = - 1 then None
          else if 0 \<le> idx \<and> idx < int n then Some (nat idx, ls)
          else choose_index n ls)"

fun read_add_quantity :: "string list \<Rightarrow> (int \<times> string list) option" where
  "read_add_quantity [] = None"
| "read_add_quantity (l # ls) =
     (case py_int l of
        None \<Rightarrow> read_add_quantity ls
      | Some a \<Rightarrow> if a < 0 then read_add_quantity ls else Some (a, ls))"

text \<open>The dialogue of \<open>re_stock\<close> up to the update: the position in \<open>shoes_list\<close> of the
  shoe selected and the quantity to add. \<open>None\<close>: the operator cancelled, did not answer
  yes, or the input ran out.\<close>

definition restock_dialogue :: "shoe list \<Rightarrow> string list \<Rightarrow> (nat \<times> int) option" where
  "restock_dialogue xs inputs =
     (let lowest = lowest_quantity_shoes xs;
          selection = (if 1 < length lowest then choose_index (length lowest) inputs
                       else Some (0, inputs))
      in case selection of
           None \<Rightarrow> None
         | Some (idx, in1) \<Rightarrow>
             (case in1 of
                [] \<Rightarrow> None
              | choice # in2 \<Rightarrow>
                  if lower choice \<noteq> ''yes'' then None
                  else (case read_add_quantity in2 of
                          None \<Rightarrow> None
                        | Some (add_quantity, in3) \<Rightarrow> Some (lowest ! idx, add_quantity))))"

text \<open>\<open>re_stock\<close>: the flag it returns, the manager and the disk afterwards. The table
  of the shoes at the lowest quantity is made before the dialogue, and \<open>to_dict\<close> raising
  there ends the operation.\<close>

definition re_stock ::
  "inventory_manager \<Rightarrow> string list \<Rightarrow> disk \<Rightarrow> bool \<times> inventory_manager \<times> disk" where
  "re_stock self inputs d =
     (if shoes_list self = [] then (False, self, d)
      else if (\<exists>i \<in> set (lowest_quantity_shoes (shoes_list self)).
                 to_dict_raises (shoes_list self ! i)) then (False, self, d)
      else (case restock_dialogue (shoes_list self) inputs of
              None \<Rightarrow> (False, self, d)
            | Some (pos, add_quantity) \<Rightarrow>
                (let selected_shoe = shoes_list self ! pos;
                     current_qty = get_quantity selected_shoe
                 in case update_quantity selected_shoe (current_qty + add_quantity) of
                      Inl e \<Rightarrow> (False, self, d)
                    | Inr updated \<Rightarrow>
                        (let self' = self\<lparr>shoes_list := (shoes_list self)[pos := updated]\<rparr>
                         in case save_shoes_data self' d of (ok, d') \<Rightarrow> (ok, self', d')))))"



text \<open>\<open>df["Value"].sum()\<close>: the values are added from left to right, \<open>nan\<close> counting as
  zero. The order in which pandas adds the doubles of a longer column is the library's own;
  for one or two rows every order gives this sum.\<close>

definition column_sum :: "pyfloat list \<Rightarrow> pyfloat" where
  "column_sum vs =
     foldl float_add (Finite False 0 0) (map (\<lambda>v. if v = NaN then Finite False 0 0 else v) vs)"

text \<open>\<open>sort_values(by='Value', ascending=False)\<close>: the rows in descending order of the
  text in their Value column. Rows with the same text keep their order.\<close>

fun insert_desc :: "table_row \<Rightarrow> table_row list \<Rightarrow> table_row list" where
  "insert_desc r [] = [r]"
| "insert_desc r (x # xs) =
     (if str_less (t_value r) (t_value x) then x # insert_desc r xs else r # x # xs)"

definition sort_values_desc :: "table_row list \<Rightarrow> table_row list" where
  "sort_values_desc rows = foldr insert_desc rows []"

text \<open>\<open>value_per_item\<close>: what it prints. The Value column is formatted as currency text
  before the rows are sorted.\<close>

definition total_line :: "pyfloat \<Rightarrow> out" where
  "total_line total_v = Print (newline # ''Total inventory value: $'' @ format_2f total_v)"

definition value_per_item :: "inventory_manager \<Rightarrow> out list" where
  "value_per_item self =
     (if shoes_list self = [] then [Print ''No shoes in inventory.'']
      else if (\<exists>s \<in> set (shoes_list self). to_dict_raises s)
      then [Print (''An error occurred: '' @ overflow_message)]
      else (let data = map to_dict (shoes_list self);
                total_v = column_sum (map d_value data);
                df = map format_currency data;
                df_sorted = sort_values_desc df
            in [Print (newline # ''=== Inventory Value Analysis ===''),
                Table df_sorted,
                total_line total_v]))"



subsection \<open>Vocabulary of the properties\<close>

text \<open>The lines of the inventory file behind its first line.\<close>

definition data_lines :: "disk \<Rightarrow> string list" where
  "data_lines d =
     (case inventory_txt d of
        None \<Rightarrow> []
      | Some txt \<Rightarrow> (case readlines txt of [] \<Rightarrow> [] | first # rest \<Rightarrow> rest))"

text \<open>A well-formed data line: not blank, exactly five fields, a cost that \<open>float\<close> reads
  and that is not negative, a quantity that \<open>int\<close> reads and that is not negative. A malformed line
  is a line that is not blank and not well-formed.\<close>

definition valid_cost :: "string \<Rightarrow> bool" where
  "valid_cost t = (case py_float t of None \<Rightarrow> False | Some v \<Rightarrow> \<not> float_lt0 v)"

definition valid_quantity :: "string \<Rightarrow> bool" where
  "valid_quantity t = (case py_int t of None \<Rightarrow> False | Some q \<Rightarrow> 0 \<le> q)"

definition well_formed :: "string \<Rightarrow> bool" where
  "well_formed raw =
     (strip raw \<noteq> [] \<and> length (split_comma (strip raw)) = 5 \<and>
      valid_cost (split_comma (strip raw) ! 3) \<and> valid_quantity (split_comma (strip raw) ! 4))"

definition malformed :: "string \<Rightarrow> bool" where
  "malformed raw = (strip raw \<noteq> [] \<and> \<not> well_formed raw)"

text \<open>The shoe a well-formed data line stands for.\<close>

definition line_shoe :: "string \<Rightarrow> shoe" where
  "line_shoe raw =
     (let parts = split_comma (strip raw)
      in \<lparr>country = strip (parts ! 0), code = strip (parts ! 1), product = strip (parts ! 2),
          cost = the (py_float (parts ! 3)), quantity = the (py_int (parts ! 4))\<rparr>)"


text \<open>The value of a record as a number, and the rows of the table a valuation prints.\<close>

definition shoe_value :: "shoe \<Rightarrow> rat" where
  "shoe_value s = float_val (cost s) * of_int (quantity s)"

definition displayed_rows :: "out list \<Rightarrow> table_row list" where
  "displayed_rows outs = concat (map (\<lambda>x. case x of Print t \<Rightarrow> [] | Table rows \<Rightarrow> rows) outs)"

subsection \<open>Sample data\<close>

definition runner :: shoe where
  "runner = \<lparr>country = ''US'', code = ''A1'', product = ''Runner'', cost = Finite False 7036874417766400 (- 47), quantity = 3\<rparr>"

definition walker :: shoe where
  "walker = \<lparr>country = ''CN'', code = ''B2'', product = ''Walker'', cost = Finite False 8444249301319680 (- 48), quantity = 3\<rparr>"



definition sample_manager :: inventory_manager where
  "sample_manager = \<lparr>shoes_list = [runner, walker], header = ''Code,Cost''\<rparr>"

definition header_line :: string where
  "header_line = ''Country,Code,Product,Cost,Quantity'' @ [newline]"

definition runner_line :: string where
  "runner_line = ''US,A1,Runner,50.00,3'' @ [newline]"

definition walker_line :: string where
  "walker_line = ''CN,B2,Walker,30.00,3'' @ [newline]"

definition boot_line :: string where
  "boot_line = ''US,C3,Boot,-10,5'' @ [newline]"

definition junk_line :: string where
  "junk_line = ''junk'' @ [newline]"

definition sample_file :: string where
  "sample_file = header_line @ runner_line @ walker_line @ boot_line"

definition bad_file :: string where
  "bad_file = header_line @ boot_line @ junk_line"

definition sample_disk :: disk where
  "sample_disk = \<lparr>inventory_txt = Some sample_file, backup_txt = None, read_only = False\<rparr>"

definition bad_disk :: disk where
  "bad_disk = \<lparr>inventory_txt = Some bad_file, backup_txt = None, read_only = False\<rparr>"

text \<open>A file of an old Mac: every line ends in a lone carriage return.\<close>

definition cr_file :: string where
  "cr_file = ''H'' @ [carriage_return] @ ''US,C3,Boot,-10,5'' @ [carriage_return]"

definition cr_disk :: disk where
  "cr_disk = \<lparr>inventory_txt = Some cr_file, backup_txt = None, read_only = False\<rparr>"

section \<open>Properties\<close>

subsection \<open>Scanning for the maximum\<close>









lemma sample_not_raises: "\<not> to_dict_raises runner" "\<not> to_dict_raises walker"
  by code_simp+

subsection \<open>The shoe with the highest quantity\<close>




subsection \<open>Search by code\<close>





subsection \<open>Adding a shoe\<close>

text \<open>
  Claim C5. When the list already holds a shoe whose code equals the entered code (as
  trimmed by the operation) in upper case, \<open>capture_shoes\<close> returns \<open>False\<close> and leaves the
  manager, its list of shoes included, and the disk as they were.
\<close>

theorem capture_shoes_rejects_duplicate:
  assumes "\<exists>s \<in> set (shoes_list self). upper (code s) = upper (strip code_in)"
  shows "capture_shoes self (country_in # code_in # rest) d = (False, self, d)"
  using assms by (simp add: capture_shoes_def)

theorem capture_shoes_rejects_duplicate_witness:
  "(\<exists>s \<in> set (shoes_list sample_manager). upper (code s) = upper (strip '' b2'')) \<and>
   capture_shoes sample_manager [''UK'', '' b2'', ''Boot'', ''10'', ''2''] sample_disk
     = (False, sample_manager, sample_disk)"
proof -
  have a: "\<exists>s \<in> set (shoes_list sample_manager). upper (code s) = upper (strip '' b2'')"
    by code_simp
  show ?thesis
    using a capture_shoes_rejects_duplicate[OF a, of "''UK''" "[''Boot'', ''10'', ''2'']" sample_disk]
    by simp
qed

subsection \<open>Restocking\<close>

lemma get_quantity_eq: "get_quantity = quantity"
  by (rule ext) (simp add: get_quantity_def)

lemma py_min_lower: "py_min m xs \<le> m \<and> (\<forall>x\<in>set xs. py_min m xs \<le> x)"
proof (induction xs arbitrary: m)
  case Nil
  show ?case by simp
next
  case (Cons y ys)
  have a: "py_min (if y < m then y else m) ys \<le> (if y < m then y else m)"
    and b: "\<forall>x\<in>set ys. py_min (if y < m then y else m) ys \<le> x"
    using Cons.IH[of "if y < m then y else m"] by blast+
  from a have "py_min m (y # ys) \<le> m" "py_min m (y # ys) \<le> y"
    by (auto split: if_splits)
  with b show ?case by simp
qed

lemma py_min_mem: "py_min m xs \<in> set (m # xs)"
proof (induction xs arbitrary: m)
  case Nil
  show ?case by simp
next
  case (Cons y ys)
  show ?case using Cons.IH[of "if y < m then y else m"] by (auto split: if_splits)
qed

lemma lowest_quantity_shoes_set:
  assumes "xs \<noteq> []"
  shows "set (lowest_quantity_shoes xs) =
           {i. i < length xs \<and> (\<forall>s\<in>set xs. quantity (xs ! i) \<le> quantity s)}"
proof -
  obtain x rest where xs: "xs = x # rest" using assms by (cases xs) auto
  let ?m = "py_min (quantity x) (map quantity rest)"
  have low: "\<forall>s\<in>set xs. ?m \<le> quantity s"
    using py_min_lower[of "quantity x" "map quantity rest"] xs by auto
  have mem: "?m \<in> quantity ` set xs"
    using py_min_mem[of "quantity x" "map quantity rest"] xs by auto
  have "set (lowest_quantity_shoes xs) = {i. i < length xs \<and> quantity (xs ! i) = ?m}"
    unfolding lowest_quantity_shoes_def xs
    by (simp add: Let_def get_quantity_eq del: upt_Suc nth_Cons_Suc)
  also have "\<dots> = {i. i < length xs \<and> (\<forall>s\<in>set xs. quantity (xs ! i) \<le> quantity s)}"
  proof (intro Collect_cong conj_cong refl iffI)
    fix i assume "i < length xs" "quantity (xs ! i) = ?m"
    then show "\<forall>s\<in>set xs. quantity (xs ! i) \<le> quantity s" using low by simp
  next
    fix i assume i: "i < length xs" and le: "\<forall>s\<in>set xs. quantity (xs ! i) \<le> quantity s"
    obtain s where s: "s \<in> set xs" "quantity s = ?m" using mem by auto
    have "quantity (xs ! i) \<le> ?m" using le s by metis
    moreover have "?m \<le> quantity (xs ! i)" using low i by simp
    ultimately show "quantity (xs ! i) = ?m" by simp
  qed
  finally show ?thesis .
qed

lemma lowest_quantity_shoes_nonempty:
  assumes "xs \<noteq> []"
  shows "lowest_quantity_shoes xs \<noteq> []"
proof -
  obtain x rest where xs: "xs = x # rest" using assms by (cases xs) auto
  let ?m = "py_min (quantity x) (map quantity rest)"
  have "?m \<in> quantity ` set xs"
    using py_min_mem[of "quantity x" "map quantity rest"] xs by auto
  then obtain s where s: "s \<in> set xs" "quantity s = ?m" by auto
  then obtain i where i: "i < length xs" "xs ! i = s" by (metis in_set_conv_nth)
  have low: "\<forall>t\<in>set xs. ?m \<le> quantity t"
    using py_min_lower[of "quantity x" "map quantity rest"] xs by auto
  have "i \<in> set (lowest_quantity_shoes xs)"
    using i s low by (simp add: lowest_quantity_shoes_set[OF assms])
  then show ?thesis by auto
qed

lemma choose_index_range:
  "choose_index n ins = Some (idx, rest) \<Longrightarrow> idx < n"
  by (induction ins) (auto split: option.splits if_splits)

lemma read_add_quantity_nonneg:
  "read_add_quantity ins = Some (a, rest) \<Longrightarrow> 0 \<le> a"
  by (induction ins) (auto split: option.splits if_splits)

lemma restock_dialogue_selection:
  assumes "xs \<noteq> []" and "restock_dialogue xs ins = Some (p, a)"
  shows "p \<in> set (lowest_quantity_shoes xs) \<and> 0 \<le> a"
proof -
  let ?low = "lowest_quantity_shoes xs"
  have ne: "?low \<noteq> []" using assms(1) by (rule lowest_quantity_shoes_nonempty)
  obtain idx in1 where sel:
    "(if 1 < length ?low then choose_index (length ?low) ins else Some (0, ins)) = Some (idx, in1)"
    using assms(2) by (auto simp: restock_dialogue_def Let_def split: option.splits)
  have idx: "idx < length ?low"
  proof (cases "1 < length ?low")
    case True
    then show ?thesis using sel choose_index_range by simp
  next
    case False
    then show ?thesis using sel ne by auto
  qed
  obtain choice in2 in3 where "in1 = choice # in2" "read_add_quantity in2 = Some (a, in3)"
    and p: "p = ?low ! idx"
    using assms(2) sel
    by (auto simp: restock_dialogue_def Let_def split: option.splits list.splits if_splits)
  then show ?thesis using idx read_add_quantity_nonneg by auto
qed

lemma sample_ints: "py_int ''1'' = Some 1" "py_int ''7'' = Some 7"
  by code_simp+

lemma lower_yes: "lower ''yes'' = ''yes''"
  by code_simp

lemma sample_lowest: "lowest_quantity_shoes [runner, walker] = [0, 1]"
  by (simp add: lowest_quantity_shoes_def get_quantity_def runner_def walker_def Let_def upt_rec)

lemma sample_dialogue:
  "restock_dialogue (shoes_list sample_manager) [''1'', ''yes'', ''7''] = Some (1, 7)"
  by (simp add: restock_dialogue_def sample_manager_def sample_lowest sample_ints lower_yes)

lemma save_shoes_data_flag:
  "fst (save_shoes_data self d) =
     (\<not> read_only d \<and> (\<forall>s \<in> set (shoes_list self). \<not> str_int_raises (quantity s)))"
proof -
  have "(length (takeWhile P xs) = length xs) = (\<forall>x \<in> set xs. P x)" for P and xs :: "shoe list"
    by (induction xs) auto
  then show ?thesis by (simp add: save_shoes_data_def Let_def)
qed

lemma sample_str_int: "\<not> str_int_raises 3" "\<not> str_int_raises 10"
  by code_simp+

lemma sample_restock_run:
  "re_stock sample_manager [''1'', ''yes'', ''7''] sample_disk =
     (True, sample_manager\<lparr>shoes_list := [runner, walker\<lparr>quantity := 10\<rparr>]\<rparr>,
      snd (save_shoes_data (sample_manager\<lparr>shoes_list := [runner, walker\<lparr>quantity := 10\<rparr>]\<rparr>)
             sample_disk))"
proof -
  have low: "lowest_quantity_shoes (shoes_list sample_manager) = [0, 1]"
    by (simp add: sample_manager_def sample_lowest)
  have nr: "\<not> (\<exists>i \<in> set (lowest_quantity_shoes (shoes_list sample_manager)).
               to_dict_raises (shoes_list sample_manager ! i))"
    using sample_not_raises by (simp add: low) (simp add: sample_manager_def)
  have ne: "shoes_list sample_manager \<noteq> []" by (simp add: sample_manager_def)
  have step: "re_stock sample_manager [''1'', ''yes'', ''7''] sample_disk =
      (case save_shoes_data (sample_manager\<lparr>shoes_list := [runner, walker\<lparr>quantity := 10\<rparr>]\<rparr>)
              sample_disk of (ok, d') \<Rightarrow>
         (ok, sample_manager\<lparr>shoes_list := [runner, walker\<lparr>quantity := 10\<rparr>]\<rparr>, d'))"
    using ne nr
    by (simp add: re_stock_def sample_dialogue Let_def update_quantity_def get_quantity_def)
      (simp add: sample_manager_def walker_def)
  have fl: "fst (save_shoes_data (sample_manager\<lparr>shoes_list := [runner, walker\<lparr>quantity := 10\<rparr>]\<rparr>)
             sample_disk)"
    using sample_str_int
    by (simp add: save_shoes_data_flag sample_disk_def) (simp add: runner_def walker_def)
  show ?thesis
    using fl by (simp add: step case_prod_unfold)
qed

text \<open>
  Claim C2. For a manager with at least one shoe, the shoes offered for restocking are
  exactly the positions of the list at the minimum quantity, and there is at least one.
  When \<open>re_stock\<close> completes with \<open>True\<close>, the dialogue selected one of these positions
  \<open>p\<close> and an amount \<open>a\<close> that is not negative; afterwards the shoe at \<open>p\<close> is the shoe it
  was with its quantity raised by \<open>a\<close>, every other shoe of the list is as it was, and
  so is the header.
\<close>

theorem re_stock_lowest:
  assumes "shoes_list self \<noteq> []"
  shows "lowest_quantity_shoes (shoes_list self) \<noteq> [] \<and>
         (\<forall>p \<in> set (lowest_quantity_shoes (shoes_list self)).
             p < length (shoes_list self) \<and>
             (\<forall>s \<in> set (shoes_list self). quantity (shoes_list self ! p) \<le> quantity s)) \<and>
         (re_stock self inputs d = (True, self', d') \<longrightarrow>
            (\<exists>p a. restock_dialogue (shoes_list self) inputs = Some (p, a) \<and>
                   p \<in> set (lowest_quantity_shoes (shoes_list self)) \<and> 0 \<le> a \<and>
                   length (shoes_list self') = length (shoes_list self) \<and>
                   shoes_list self' ! p =
                     (shoes_list self ! p)\<lparr>quantity := quantity (shoes_list self ! p) + a\<rparr> \<and>
                   (\<forall>i < length (shoes_list self). i \<noteq> p \<longrightarrow>
                       shoes_list self' ! i = shoes_list self ! i) \<and>
                   header self' = header self))"
proof (intro conjI impI)
  show "lowest_quantity_shoes (shoes_list self) \<noteq> []"
    using assms by (rule lowest_quantity_shoes_nonempty)
  show "\<forall>p \<in> set (lowest_quantity_shoes (shoes_list self)).
             p < length (shoes_list self) \<and>
             (\<forall>s \<in> set (shoes_list self). quantity (shoes_list self ! p) \<le> quantity s)"
    by (simp add: lowest_quantity_shoes_set[OF assms])
next
  assume run: "re_stock self inputs d = (True, self', d')"
  let ?xs = "shoes_list self"
  obtain p a where dlg: "restock_dialogue ?xs inputs = Some (p, a)"
    using run assms by (auto simp: re_stock_def split: option.splits if_splits)
  have sel: "p \<in> set (lowest_quantity_shoes ?xs)" "0 \<le> a"
    using restock_dialogue_selection[OF assms dlg] by auto
  then have plen: "p < length ?xs"
    by (simp add: lowest_quantity_shoes_set[OF assms])
  have upd: "self' = self\<lparr>shoes_list := ?xs[p := (?xs ! p)\<lparr>quantity := quantity (?xs ! p) + a\<rparr>]\<rparr>"
    using run assms dlg
    by (auto simp: re_stock_def Let_def update_quantity_def get_quantity_def
        split: if_splits prod.splits)
  show "\<exists>p a. restock_dialogue ?xs inputs = Some (p, a) \<and>
                   p \<in> set (lowest_quantity_shoes ?xs) \<and> 0 \<le> a \<and>
                   length (shoes_list self') = length ?xs \<and>
                   shoes_list self' ! p = (?xs ! p)\<lparr>quantity := quantity (?xs ! p) + a\<rparr> \<and>
                   (\<forall>i < length ?xs. i \<noteq> p \<longrightarrow> shoes_list self' ! i = ?xs ! i) \<and>
                   header self' = header self"
    using dlg sel plen upd by (intro exI[of _ p] exI[of _ a]) simp
qed

theorem re_stock_lowest_witness:
  "shoes_list sample_manager \<noteq> [] \<and>
   fst (re_stock sample_manager [''1'', ''yes'', ''7''] sample_disk) \<and>
   shoes_list (fst (snd (re_stock sample_manager [''1'', ''yes'', ''7''] sample_disk)))
     = [runner, walker\<lparr>quantity := 10\<rparr>] \<and>
   lowest_quantity_shoes (shoes_list sample_manager) = [0, 1] \<and>
   (\<exists>p a. restock_dialogue (shoes_list sample_manager) [''1'', ''yes'', ''7''] = Some (p, a) \<and>
          p \<in> set (lowest_quantity_shoes (shoes_list sample_manager)) \<and> 0 \<le> a \<and>
          shoes_list (fst (snd (re_stock sample_manager [''1'', ''yes'', ''7''] sample_disk))) ! p =
            (shoes_list sample_manager ! p)\<lparr>quantity := quantity (shoes_list sample_manager ! p) + a\<rparr>)"
proof -
  let ?r = "re_stock sample_manager [''1'', ''yes'', ''7''] sample_disk"
  have ne: "shoes_list sample_manager \<noteq> []" by (simp add: sample_manager_def)
  have flag: "fst ?r" by (simp add: sample_restock_run)
  then have run: "?r = (True, fst (snd ?r), snd (snd ?r))"
    by (metis prod.collapse)
  have lst: "shoes_list (fst (snd ?r)) = [runner, walker\<lparr>quantity := 10\<rparr>]"
    by (simp add: sample_restock_run)
  have low: "lowest_quantity_shoes (shoes_list sample_manager) = [0, 1]"
    by (simp add: sample_manager_def sample_lowest)
  from re_stock_lowest[OF ne, of "[''1'', ''yes'', ''7'']" sample_disk "fst (snd ?r)" "snd (snd ?r)"] run
  have "\<exists>p a. restock_dialogue (shoes_list sample_manager) [''1'', ''yes'', ''7''] = Some (p, a) \<and>
          p \<in> set (lowest_quantity_shoes (shoes_list sample_manager)) \<and> 0 \<le> a \<and>
          shoes_list (fst (snd ?r)) ! p =
            (shoes_list sample_manager ! p)\<lparr>quantity := quantity (shoes_list sample_manager ! p) + a\<rparr>"
    by blast
  with ne flag low lst show ?thesis by blast
qed

subsection \<open>The valuation table\<close>

lemma format_samples:
  "format_currency (to_dict walker) =
      \<lparr>t_country = ''CN'', t_code = ''B2'', t_product = ''Walker'', t_cost = ''$30.00'',
       t_quantity = 3, t_value = ''$90.00''\<rparr>"
  "format_currency (to_dict runner) =
      \<lparr>t_country = ''US'', t_code = ''A1'', t_product = ''Runner'', t_cost = ''$50.00'',
       t_quantity = 3, t_value = ''$150.00''\<rparr>"
  by code_simp+

lemma shoe_values: "shoe_value walker = 90" "shoe_value runner = 150"
  by code_simp+

text \<open>
  Claim C1 says the rows of the valuation table are in descending order of value. The
  rows are sorted after the Value column has been turned into currency text, so the
  order is the order of the text: the shoe worth 90 is shown before the shoe worth 150,
  because the text \<open>$90.00\<close> is behind \<open>$150.00\<close> in the order of strings.
\<close>

theorem value_per_item_sorts_text:
  "displayed_rows (value_per_item sample_manager) =
     [format_currency (to_dict walker), format_currency (to_dict runner)] \<and>
   map t_value (displayed_rows (value_per_item sample_manager)) = [''$90.00'', ''$150.00''] \<and>
   shoe_value walker = 90 \<and> shoe_value runner = 150"
proof -
  have nr: "\<not> (\<exists>s \<in> set (shoes_list sample_manager). to_dict_raises s)"
    using sample_not_raises by (simp add: sample_manager_def)
  have ne: "shoes_list sample_manager \<noteq> []" by (simp add: sample_manager_def)
  have rows: "displayed_rows (value_per_item sample_manager) =
      sort_values_desc [format_currency (to_dict runner), format_currency (to_dict walker)]"
    using nr ne
    by (simp add: value_per_item_def Let_def displayed_rows_def total_line_def)
      (simp add: sample_manager_def)
  have srt: "sort_values_desc [format_currency (to_dict runner), format_currency (to_dict walker)]
      = [format_currency (to_dict walker), format_currency (to_dict runner)]"
    by (simp add: sort_values_desc_def format_samples)
  show ?thesis
    using shoe_values by (simp add: rows srt) (simp add: format_samples)
qed

subsection \<open>Constructing a shoe\<close>

lemma sample_numbers:
  "py_float ''-10'' = Some (Finite True 5629499534213120 (- 49))"
  "py_float ''50.00'' = Some (Finite False 7036874417766400 (- 47))"
  "py_float ''30.00'' = Some (Finite False 8444249301319680 (- 48))"
  "py_float ''nan'' = Some NaN"
  "py_float ''-0.0'' = Some (Finite True 0 0)"
  "py_float ''inf'' = Some (Infinite False)"
  "py_int ''5'' = Some 5" "py_int ''3'' = Some 3"
  "py_int (''5'' @ [CHR 0x1C]) = None"
  by code_simp+

lemma strip_samples:
  "strip header_line = ''Country,Code,Product,Cost,Quantity''"
  "strip runner_line = ''US,A1,Runner,50.00,3''"
  "strip walker_line = ''CN,B2,Walker,30.00,3''"
  "strip boot_line = ''US,C3,Boot,-10,5''"
  "strip junk_line = ''junk''"
  "strip ''US'' = ''US''" "strip ''A1'' = ''A1''" "strip ''Runner'' = ''Runner''"
  "strip ''CN'' = ''CN''" "strip ''B2'' = ''B2''" "strip ''Walker'' = ''Walker''"
  "strip '' US '' = ''US''" "strip '' C3'' = ''C3''" "strip ''Boot'' = ''Boot''"
  by (simp_all add: strip_def isspace_def newline_def header_line_def runner_line_def
      walker_line_def boot_line_def junk_line_def)

lemma split_samples:
  "split_comma ''US,A1,Runner,50.00,3'' = [''US'', ''A1'', ''Runner'', ''50.00'', ''3'']"
  "split_comma ''CN,B2,Walker,30.00,3'' = [''CN'', ''B2'', ''Walker'', ''30.00'', ''3'']"
  "split_comma ''US,C3,Boot,-10,5'' = [''US'', ''C3'', ''Boot'', ''-10'', ''5'']"
  "split_comma ''junk'' = [''junk'']"
  by (simp_all add: comma_def)



subsection \<open>Loading the file\<close>

lemma Shoe_init_well:
  "Shoe_init a b c x y =
     (if valid_cost x \<and> valid_quantity y
      then Inr \<lparr>country = strip a, code = strip b, product = strip c,
                cost = the (py_float x), quantity = the (py_int y)\<rparr>
      else (if valid_cost x then Inl (Invalid_quantity y) else Inl (Invalid_cost x)))"
  by (auto simp: Shoe_init_def valid_cost_def valid_quantity_def split: option.splits)

lemma length_5_list:
  "length xs = 5 \<Longrightarrow> \<exists>a b c d e. xs = [a, b, c, d, e]"
  by (auto simp: length_Suc_conv eval_nat_numeral)

lemma load_line_cases:
  "load_line raw self =
     (if well_formed raw then self\<lparr>shoes_list := shoes_list self @ [line_shoe raw]\<rparr> else self)"
proof (cases "strip raw = []")
  case True
  then show ?thesis by (simp add: load_line_def well_formed_def)
next
  case ne: False
  show ?thesis
  proof (cases "length (split_comma (strip raw)) = 5")
    case True
    then obtain a b c x y where p: "split_comma (strip raw) = [a, b, c, x, y]"
      using length_5_list by blast
    show ?thesis
      using ne p by (simp add: load_line_def well_formed_def line_shoe_def Shoe_init_well)
  next
    case False
    then have "(case split_comma (strip raw) of
                  [a, b, c, x, y] \<Rightarrow> f a b c x y
                | _ \<Rightarrow> self) = self" for f
      by (auto split: list.splits)
    then show ?thesis
      using ne False by (simp add: load_line_def well_formed_def)
  qed
qed

lemma load_lines_result:
  "load_lines ls self =
     self\<lparr>shoes_list := shoes_list self @ map line_shoe (filter well_formed ls)\<rparr>"
  by (induction ls arbitrary: self) (simp_all add: load_line_cases)

lemma read_shoes_data_result:
  "read_shoes_data self d =
     (case inventory_txt d of
        None \<Rightarrow> (False, self\<lparr>shoes_list := []\<rparr>)
      | Some txt \<Rightarrow>
          (case readlines txt of
             [] \<Rightarrow> (False, self\<lparr>shoes_list := []\<rparr>)
           | first # rest \<Rightarrow>
               (filter well_formed rest \<noteq> [],
                self\<lparr>shoes_list := map line_shoe (filter well_formed rest), header := strip first\<rparr>)))"
  by (simp add: read_shoes_data_def load_lines_result Let_def split: option.splits list.splits)

lemma readlines_samples:
  "readlines sample_file = [header_line, runner_line, walker_line, boot_line]"
  "readlines bad_file = [header_line, boot_line, junk_line]"
  by (simp_all add: readlines_def sample_file_def bad_file_def header_line_def runner_line_def
      walker_line_def boot_line_def junk_line_def newline_def carriage_return_def)

lemma well_formed_samples:
  "well_formed runner_line" "well_formed walker_line"
  "\<not> well_formed boot_line" "\<not> well_formed junk_line"
  "malformed boot_line" "malformed junk_line"
  by (simp_all add: well_formed_def malformed_def strip_samples split_samples sample_numbers
      valid_cost_def valid_quantity_def comma_def)

lemma line_shoe_samples:
  "line_shoe runner_line = runner" "line_shoe walker_line = walker"
  by (simp_all add: line_shoe_def strip_samples split_samples sample_numbers runner_def walker_def
      comma_def)

lemma data_lines_samples:
  "data_lines sample_disk = [runner_line, walker_line, boot_line]"
  "data_lines bad_disk = [boot_line, junk_line]"
  by (simp_all add: data_lines_def sample_disk_def bad_disk_def readlines_samples)

text \<open>
  Claim C4. For every manager and disk, \<open>read_shoes_data\<close> returns \<open>True\<close> exactly when the
  list it leaves is not empty. The list it leaves holds the shoes of the well-formed
  lines behind the header, in file order: as many shoes as there are well-formed lines.
  Every line behind the header is well-formed, malformed or blank, and the malformed and
  the blank ones add nothing and stop nothing.
\<close>

theorem read_shoes_data_counts:
  "fst (read_shoes_data self d) = (shoes_list (snd (read_shoes_data self d)) \<noteq> []) \<and>
   shoes_list (snd (read_shoes_data self d)) = map line_shoe (filter well_formed (data_lines d)) \<and>
   length (shoes_list (snd (read_shoes_data self d))) = length (filter well_formed (data_lines d)) \<and>
   length (filter well_formed (data_lines d)) + length (filter malformed (data_lines d)) +
     length (filter (\<lambda>l. strip l = []) (data_lines d)) = length (data_lines d)"
proof -
  have part: "length (filter well_formed ls) + length (filter malformed ls) +
     length (filter (\<lambda>l. strip l = []) ls) = length ls" for ls
    by (induction ls) (auto simp: malformed_def well_formed_def)
  show ?thesis
    by (simp add: read_shoes_data_result data_lines_def part split: option.splits list.splits)
qed

theorem read_shoes_data_counts_witness:
  "fst (read_shoes_data InventoryManager_init sample_disk) \<and>
   shoes_list (snd (read_shoes_data InventoryManager_init sample_disk)) = [runner, walker] \<and>
   length (filter well_formed (data_lines sample_disk)) = 2 \<and>
   length (filter malformed (data_lines sample_disk)) = 1"
proof -
  have w: "filter well_formed (data_lines sample_disk) = [runner_line, walker_line]"
    by (simp add: data_lines_samples well_formed_samples)
  have m: "length (filter malformed (data_lines sample_disk)) = 1"
    by (simp add: data_lines_samples well_formed_samples malformed_def strip_samples)
  show ?thesis
    using read_shoes_data_counts[of InventoryManager_init sample_disk] w m
    by (simp add: line_shoe_samples)
qed

text \<open>
  Claim C10. When \<open>read_shoes_data\<close> returns \<open>False\<close>, no line behind the header is
  well-formed (the file is missing, is empty, or has no such line), the list of shoes is
  empty afterwards whatever it held before, and the header is the trimmed first line of
  the file when the file exists and is not empty, and the header as it was otherwise.
\<close>

theorem read_shoes_data_failure_clears:
  assumes "\<not> fst (read_shoes_data self d)"
  shows "shoes_list (snd (read_shoes_data self d)) = [] \<and>
         filter well_formed (data_lines d) = [] \<and>
         header (snd (read_shoes_data self d)) =
           (case inventory_txt d of
              None \<Rightarrow> header self
            | Some txt \<Rightarrow> (case readlines txt of [] \<Rightarrow> header self | first # rest \<Rightarrow> strip first))"
  using assms
  by (auto simp: read_shoes_data_result data_lines_def split: option.splits list.splits)

theorem read_shoes_data_failure_clears_witness:
  "\<not> fst (read_shoes_data sample_manager bad_disk) \<and>
   shoes_list sample_manager = [runner, walker] \<and>
   header sample_manager = ''Code,Cost'' \<and>
   shoes_list (snd (read_shoes_data sample_manager bad_disk)) = [] \<and>
   header (snd (read_shoes_data sample_manager bad_disk)) = ''Country,Code,Product,Cost,Quantity'' \<and>
   \<not> fst (read_shoes_data sample_manager cr_disk) \<and>
   shoes_list (snd (read_shoes_data sample_manager cr_disk)) = [] \<and>
   header (snd (read_shoes_data sample_manager cr_disk)) = ''H''"
proof -
  have f: "\<not> fst (read_shoes_data sample_manager bad_disk)"
    by (simp add: read_shoes_data_result bad_disk_def readlines_samples well_formed_samples
        strip_samples)
  have s: "shoes_list sample_manager = [runner, walker]" "header sample_manager = ''Code,Cost''"
    by (simp_all add: sample_manager_def)
  have r: "readlines cr_file = [''H'' @ [newline], boot_line]"
    by (simp add: readlines_def cr_file_def boot_line_def newline_def carriage_return_def)
  have h: "strip (''H'' @ [newline]) = ''H''"
    by (simp add: strip_def isspace_def newline_def)
  have g: "\<not> fst (read_shoes_data sample_manager cr_disk)"
    by (simp add: read_shoes_data_result cr_disk_def r well_formed_samples)
  have hb: "header (snd (read_shoes_data sample_manager bad_disk)) =
      ''Country,Code,Product,Cost,Quantity''"
    using read_shoes_data_failure_clears[OF f]
    by (simp add: bad_disk_def readlines_samples strip_samples)
  have hc: "header (snd (read_shoes_data sample_manager cr_disk)) = ''H''"
    using read_shoes_data_failure_clears[OF g] h
    by (simp only: cr_disk_def disk.simps option.case r list.case)
  show ?thesis
    using f g s hb hc read_shoes_data_failure_clears[OF f] read_shoes_data_failure_clears[OF g]
    by blast
qed

end
